theory Spec2Isabelle
  imports Main "HOL-Library.Word"
begin

unbundle bit_operations_syntax

section \<open>Data model (sdk/contracts)\<close>

type_synonym byte = "8 word"

text \<open>\<^verbatim>\<open>contracts.MIDI\<close>: one decoded event.\<close>

record MIDI =
  Timestamp :: "64 word"
  Command :: byte
  Note :: byte
  Velocity :: byte

text \<open>\<^verbatim>\<open>contracts.MIDICommand\<close> is a byte; the two constants of options.go.\<close>

definition NoteOn :: byte where
  "NoteOn = 0x90"

definition NoteOff :: byte where
  "NoteOff = 0x80"

record MIDIEventFilter =
  Commands :: "byte list"

record CoreMIDIConfig =
  ClientName :: string

text \<open>
  Errors of the Darwin client: the five sentinels, an error handed back by the native
  library, and the two wrappings built with \<^verbatim>\<open>fmt.Errorf\<close>
  (\<^verbatim>\<open>"<text>: %w"\<close> and \<^verbatim>\<open>"%w: %v"\<close>).
\<close>

datatype error =
    ErrNoMIDIDevices
  | ErrInvalidMIDIDevice
  | ErrMIDIConnectionError
  | ErrCreateInputPort
  | ErrIncompleteMIDIPacket
  | NativeError string
  | ErrorfText string error
  | ErrorfWrap error error

fun Error_text :: "error \<Rightarrow> string" where
  "Error_text ErrNoMIDIDevices = ''no MIDI devices found''"
| "Error_text ErrInvalidMIDIDevice = ''invalid MIDI device''"
| "Error_text ErrMIDIConnectionError = ''error connecting to MIDI device''"
| "Error_text ErrCreateInputPort = ''error creating input port''"
| "Error_text ErrIncompleteMIDIPacket = ''incomplete MIDI packet''"
| "Error_text (NativeError msg) = msg"
| "Error_text (ErrorfText txt e) = txt @ '': '' @ Error_text e"
| "Error_text (ErrorfWrap e1 e2) = Error_text e1 @ '': '' @ Error_text e2"

text \<open>
  The logger is a capability of the caller. The model keeps the calls made on it, in
  order: the method called, the message and the structured fields.
\<close>

datatype LogMethod = LogInfo | LogError | LogDebug | LogWarn | LogFatal

datatype Field = FieldInt string int | FieldString string string | FieldError string error

type_synonym LogCall = "LogMethod \<times> string \<times> Field list"

record ClientOptions =
  Logger :: "LogCall list"
  MIDIEventFilter :: "MIDIEventFilter option"
  CoreMIDIConfig :: CoreMIDIConfig

section \<open>Channels and the native library\<close>

text \<open>
  A Go channel of \<^verbatim>\<open>contracts.MIDI\<close>: its capacity, the events sent and not yet
  received, and whether it was closed. Channels live in a store and are referred to by
  their index, so that the caller and the client can hold the same channel. The consumer
  is outside the model: nobody is parked in a receive, so a send is ready exactly when
  the buffer has room.
\<close>

record chan =
  chan_cap :: nat
  chan_buf :: "MIDI list"
  chan_closed :: bool

text \<open>\<^verbatim>\<open>make(chan contracts.MIDI)\<close> and \<^verbatim>\<open>make(chan contracts.MIDI, n)\<close>.\<close>

definition make_chan :: "nat \<Rightarrow> chan" where
  "make_chan n = \<lparr>chan_cap = n, chan_buf = [], chan_closed = False\<rparr>"

datatype send_result = Sent "chan list" | Default | SendOnClosed

text \<open>
  \<^verbatim>\<open>select { case ch <- event: ... default: ... }\<close>. A send on a closed channel
  panics; a send with room in the buffer proceeds; otherwise the default branch runs.
  Go has no dangling channel reference: an index outside the store does not occur, and
  is given the default branch.
\<close>

definition select_send :: "chan list \<Rightarrow> nat \<Rightarrow> MIDI \<Rightarrow> send_result" where
  "select_send cs ch event =
     (if ch < length cs then
        (let c = cs ! ch in
         if chan_closed c then SendOnClosed
         else if length (chan_buf c) < chan_cap c
           then Sent (cs[ch := c\<lparr>chan_buf := chan_buf c @ [event]\<rparr>])
         else Default)
      else Default)"

text \<open>
  What go-coremidi returns to \<^verbatim>\<open>SelectDevice\<close>; the library is not part of the
  repository, so its results are parameters. Each call returns a value and an error, and
  the client assigns the value whatever the error is. A port connection is named by a
  number; \<open>None\<close> is the nil interface.
\<close>

record Source =
  Name :: string
  EntityName :: string
  Manufacturer :: string

record coremidi =
  AllSources :: "Source list \<times> error option"
  NewInputPort :: "nat \<times> error option"
  Connect :: "Source \<Rightarrow> nat option \<times> error option"

record Packet =
  Data :: "byte list"

section \<open>The Darwin client\<close>

text \<open>
  \<^verbatim>\<open>ClientMid\<close>. \<open>eventChannel\<close> is the \<^verbatim>\<open>atomic.Value\<close>: \<open>None\<close> until the first
  Store, then the channel stored. \<open>mu\<close> is true while the mutex is held, \<open>wg\<close> is the
  counter of the WaitGroup, \<open>stopOnce\<close> is true once the \<^verbatim>\<open>sync.Once\<close> has run.
  The last two fields are not fields of the Go struct: \<open>chans\<close> is the store of
  channels, \<open>disconnected\<close> the port connections on which \<^verbatim>\<open>Disconnect()\<close> was called,
  in order.
\<close>

record ClientMid =
  logger :: "LogCall list"
  eventChannel :: "nat option"
  client :: nat
  inputPort :: nat
  portConn :: "nat option"
  midiEventFilter :: "MIDIEventFilter option"
  coreMIDIConfig :: CoreMIDIConfig
  mu :: bool
  capturing :: bool
  wg :: nat
  stopOnce :: bool
  chans :: "chan list"
  disconnected :: "nat list"

text \<open>
  How a call ends: it returns a value, it blocks for ever (on the mutex or on the
  WaitGroup: no other goroutine runs in this sequential model), or it panics. The state
  reached is kept in each case.
\<close>

datatype 'a outcome = Returns 'a ClientMid | Blocks ClientMid | Panics string ClientMid

definition Info :: "string \<Rightarrow> Field list \<Rightarrow> ClientMid \<Rightarrow> ClientMid" where
  "Info msg fs m = m\<lparr>logger := logger m @ [(LogInfo, msg, fs)]\<rparr>"

definition Warn :: "string \<Rightarrow> Field list \<Rightarrow> ClientMid \<Rightarrow> ClientMid" where
  "Warn msg fs m = m\<lparr>logger := logger m @ [(LogWarn, msg, fs)]\<rparr>"

definition Error :: "string \<Rightarrow> Field list \<Rightarrow> ClientMid \<Rightarrow> ClientMid" where
  "Error msg fs m = m\<lparr>logger := logger m @ [(LogError, msg, fs)]\<rparr>"

text \<open>
  \<^verbatim>\<open>NewMIDIClient\<close>: the result of \<^verbatim>\<open>coremidi.NewClient\<close> and the channels the
  caller has made are parameters.
\<close>

definition NewMIDIClient :: "ClientOptions \<Rightarrow> nat \<times> error option \<Rightarrow> chan list \<Rightarrow> error + ClientMid" where
  "NewMIDIClient options newClient heap =
     (case snd newClient of
        Some err \<Rightarrow> Inl err
      | None \<Rightarrow>
          Inr \<lparr>logger = Logger options @ [(LogInfo, ''MIDI client successfully created'', [])],
               eventChannel = None,
               client = fst newClient,
               inputPort = 0,
               portConn = None,
               midiEventFilter = MIDIEventFilter options,
               coreMIDIConfig = CoreMIDIConfig options,
               mu = False,
               capturing = False,
               wg = 0,
               stopOnce = False,
               chans = heap,
               disconnected = []\<rparr>)"

text \<open>
  \<^verbatim>\<open>if m.portConn != nil { m.portConn.Disconnect(); m.portConn = nil }\<close>, as it
  stands in \<^verbatim>\<open>SelectDevice\<close>, \<^verbatim>\<open>Stop\<close> and \<^verbatim>\<open>stopCapture\<close>.
\<close>

definition disconnect_portConn :: "ClientMid \<Rightarrow> ClientMid" where
  "disconnect_portConn m =
     (case portConn m of
        None \<Rightarrow> m
      | Some c \<Rightarrow> m\<lparr>portConn := None, disconnected := disconnected m @ [c]\<rparr>)"

text \<open>
  \<^verbatim>\<open>SelectDevice\<close> (the same text in both Darwin variants). The deferred Unlock runs
  on every return.
\<close>

definition SelectDevice :: "ClientMid \<Rightarrow> int \<Rightarrow> coremidi \<Rightarrow> error option outcome" where
  "SelectDevice m deviceID lib =
     (if mu m then Blocks m
      else
        let m1 = m\<lparr>mu := True\<rparr>;
            sources = fst (AllSources lib)
        in case snd (AllSources lib) of
             Some err \<Rightarrow>
               Returns (Some (ErrorfText ''error retrieving MIDI sources'' err)) (m1\<lparr>mu := False\<rparr>)
           | None \<Rightarrow>
               if deviceID < 0 \<or> deviceID \<ge> int (length sources) then
                 Returns (Some ErrInvalidMIDIDevice)
                   ((Error (Error_text ErrInvalidMIDIDevice) [] m1)\<lparr>mu := False\<rparr>)
               else
                 let m2 = disconnect_portConn m1;
                     source = sources ! nat deviceID;
                     m3 = Info ''MIDI device selected''
                            [FieldInt ''deviceID'' deviceID, FieldString ''deviceName'' (Name source)] m2;
                     m4 = m3\<lparr>inputPort := fst (NewInputPort lib)\<rparr>
                 in case snd (NewInputPort lib) of
                      Some err \<Rightarrow>
                        Returns (Some (ErrorfWrap ErrCreateInputPort err))
                          ((Error (Error_text ErrCreateInputPort) [] m4)\<lparr>mu := False\<rparr>)
                    | None \<Rightarrow>
                        let m5 = m4\<lparr>portConn := fst (Connect lib source)\<rparr>
                        in case snd (Connect lib source) of
                             Some err \<Rightarrow>
                               Returns (Some (ErrorfWrap ErrMIDIConnectionError err))
                                 ((Error (Error_text ErrMIDIConnectionError) [] m5)\<lparr>mu := False\<rparr>)
                           | None \<Rightarrow>
                               Returns None
                                 ((Info ''MIDI device successfully connected'' [] m5)\<lparr>mu := False\<rparr>))"

text \<open>\<^verbatim>\<open>isCommandAllowed\<close>: the loop over the allowed commands.\<close>

fun isCommandAllowed :: "byte \<Rightarrow> byte list \<Rightarrow> bool" where
  "isCommandAllowed command [] = False"
| "isCommandAllowed command (allowedCommand # allowedCommands) =
     (if command = allowedCommand then True else isCommandAllowed command allowedCommands)"

text \<open>
  The guard of \<^verbatim>\<open>handleMIDIMessage\<close> under which the event is dropped:
  \<^verbatim>\<open>m.midiEventFilter != nil && !isCommandAllowed(event.Command, m.midiEventFilter.Commands)\<close>.
\<close>

definition filtered_out :: "MIDIEventFilter option \<Rightarrow> byte \<Rightarrow> bool" where
  "filtered_out flt command =
     (case flt of
        None \<Rightarrow> False
      | Some f \<Rightarrow> \<not> isCommandAllowed command (Commands f))"

text \<open>
  \<^verbatim>\<open>handleMIDIMessage\<close> of internal/midi/mididarwin (the variant with the WaitGroup).
  The source argument is not used by the code and is left out; \<open>UnixNano\<close> is what
  \<^verbatim>\<open>time.Now().UTC().UnixNano()\<close> returns during the call. \<open>wg_Done\<close> is the deferred
  \<^verbatim>\<open>m.wg.Done()\<close>.
\<close>

definition wg_Done :: "ClientMid \<Rightarrow> ClientMid" where
  "wg_Done m = m\<lparr>wg := wg m - 1\<rparr>"

definition decode :: "Packet \<Rightarrow> int \<Rightarrow> MIDI" where
  "decode packet UnixNano =
     \<lparr>Timestamp = word_of_int UnixNano,
      Command = Data packet ! 0,
      Note = Data packet ! 1,
      Velocity = Data packet ! 2\<rparr>"

definition handleMIDIMessage :: "ClientMid \<Rightarrow> Packet \<Rightarrow> int \<Rightarrow> unit outcome" where
  "handleMIDIMessage m packet UnixNano =
     (let m1 = m\<lparr>wg := wg m + 1\<rparr>
      in case eventChannel m1 of
           None \<Rightarrow>
             Returns () (wg_Done (Warn ''eventChannel not initialized or of invalid type'' [] m1))
         | Some ch \<Rightarrow>
             if length (Data packet) \<ge> 3 then
               let event = decode packet UnixNano
               in if filtered_out (midiEventFilter m1) (Command event) then Returns () (wg_Done m1)
                  else
                    (case select_send (chans m1) ch event of
                       Sent cs \<Rightarrow> Returns () (wg_Done (m1\<lparr>chans := cs\<rparr>))
                     | Default \<Rightarrow>
                         Returns () (wg_Done (Warn ''Event buffer full; dropping MIDI event'' [] m1))
                     | SendOnClosed \<Rightarrow> Panics ''send on closed channel'' (wg_Done m1))
             else Returns () (wg_Done (Warn (Error_text ErrIncompleteMIDIPacket) [] m1)))"

text \<open>
  \<^verbatim>\<open>Stop\<close> of internal/midi/mididarwin. The body runs under \<^verbatim>\<open>stopOnce.Do\<close>: a
  call that finds the Once done returns nil at once. The body locks the mutex, and
  \<^verbatim>\<open>m.wg.Wait()\<close> returns only when the counter is zero.
\<close>

definition Stop :: "ClientMid \<Rightarrow> error option outcome" where
  "Stop m =
     (if stopOnce m then Returns None m
      else
        let m1 = Info ''Stopping MIDI capture'' [] m
        in if mu m1 then Blocks m1
           else
             let m2 = m1\<lparr>mu := True\<rparr>
             in if capturing m2 then
                  let m3 = disconnect_portConn (m2\<lparr>capturing := False\<rparr>);
                      dummyChannel = length (chans m3);
                      m4 = m3\<lparr>chans := chans m3 @ [make_chan 0], eventChannel := Some dummyChannel\<rparr>;
                      m5 = Info ''MIDI capture stopped'' [] m4
                  in if wg m5 = 0 then Returns None (m5\<lparr>mu := False, stopOnce := True\<rparr>)
                     else Blocks m5
                else Returns None (m2\<lparr>mu := False, stopOnce := True\<rparr>))"

text \<open>
  \<^verbatim>\<open>StartCapture\<close> of internal/midi/mididarwin. It holds the mutex while it calls
  \<^verbatim>\<open>m.Stop()\<close>, so a Stop whose Once has not run blocks on the mutex, and the call
  never returns.
\<close>

definition StartCapture :: "ClientMid \<Rightarrow> nat option \<Rightarrow> unit outcome" where
  "StartCapture m eventChannelArg =
     (if mu m then Blocks m
      else
        let m1 = m\<lparr>mu := True\<rparr>
        in case eventChannelArg of
             None \<Rightarrow>
               Returns () ((Error ''StartCapture called with nil eventChannel'' [] m1)\<lparr>mu := False\<rparr>)
           | Some ch \<Rightarrow>
               let start = (\<lambda>m'. Returns ()
                              ((Info ''Starting MIDI event capture'' [] m')
                                 \<lparr>eventChannel := Some ch, capturing := True, mu := False\<rparr>))
               in if capturing m1 then
                    (case Stop (Warn ''Capture already started; attempting to stop existing capture'' [] m1) of
                       Returns None m2 \<Rightarrow> start m2
                     | Returns (Some err) m2 \<Rightarrow>
                         start (Error ''Failed to stop existing capture'' [FieldError ''error'' err] m2)
                     | Blocks m2 \<Rightarrow> Blocks m2
                     | Panics msg m2 \<Rightarrow> Panics msg (m2\<lparr>mu := False\<rparr>))
                  else start m1)"

section \<open>The variant of the Darwin client without Once and WaitGroup\<close>

text \<open>
  The second Darwin client of the repository has no \<open>wg\<close> and no \<open>stopOnce\<close> (the
  fields stay untouched), \<^verbatim>\<open>StartCapture\<close> takes no lock, and \<^verbatim>\<open>Stop\<close> calls
  \<^verbatim>\<open>stopCapture\<close>. \<^verbatim>\<open>m.eventChannel.Store(nil)\<close> panics: \<^verbatim>\<open>atomic.Value\<close> refuses
  a nil value.
\<close>

definition handleMIDIMessage_part000 :: "ClientMid \<Rightarrow> Packet \<Rightarrow> int \<Rightarrow> unit outcome" where
  "handleMIDIMessage_part000 m packet UnixNano =
     (case eventChannel m of
        None \<Rightarrow> Returns () (Warn ''eventChannel not initialized or of invalid type'' [] m)
      | Some ch \<Rightarrow>
          if length (Data packet) \<ge> 3 then
            let event = decode packet UnixNano
            in if filtered_out (midiEventFilter m) (Command event) then Returns () m
               else
                 (case select_send (chans m) ch event of
                    Sent cs \<Rightarrow> Returns () (m\<lparr>chans := cs\<rparr>)
                  | Default \<Rightarrow> Returns () (Warn ''Event buffer full; dropping MIDI event'' [] m)
                  | SendOnClosed \<Rightarrow> Panics ''send on closed channel'' m)
          else Returns () (Warn (Error_text ErrIncompleteMIDIPacket) [] m))"

definition stopCapture_part000 :: "ClientMid \<Rightarrow> error option outcome" where
  "stopCapture_part000 m =
     (if mu m then Blocks m
      else
        let m1 = disconnect_portConn (m\<lparr>mu := True\<rparr>)
        in if eventChannel m1 \<noteq> None
             then Panics ''sync/atomic: store of nil value into Value'' (m1\<lparr>mu := False\<rparr>)
           else Returns None ((Info ''MIDI capture stopped'' [] m1)\<lparr>mu := False\<rparr>))"

definition Stop_part000 :: "ClientMid \<Rightarrow> error option outcome" where
  "Stop_part000 m = stopCapture_part000 (Info ''Stopping MIDI capture'' [] m)"

definition StartCapture_part000 :: "ClientMid \<Rightarrow> nat option \<Rightarrow> unit outcome" where
  "StartCapture_part000 m eventChannelArg =
     (case eventChannelArg of
        None \<Rightarrow> Returns () (Error ''StartCapture called with nil eventChannel'' [] m)
      | Some ch \<Rightarrow>
          let start = (\<lambda>m'. Returns ()
                         ((Info ''Starting MIDI event capture'' [] m')
                            \<lparr>eventChannel := Some ch, capturing := True\<rparr>))
          in if capturing m then
               (case Stop_part000 (Warn ''Capture already started; attempting to stop existing capture'' [] m) of
                  Returns None m2 \<Rightarrow> start m2
                | Returns (Some err) m2 \<Rightarrow>
                    start (Error ''Failed to stop existing capture'' [FieldError ''error'' err] m2)
                | Blocks m2 \<Rightarrow> Blocks m2
                | Panics msg m2 \<Rightarrow> Panics msg m2)
             else start m)"

section \<open>Sequences of calls\<close>

text \<open>
  A caller that makes its calls one after the other, with the native library delivering
  packets to the callback (\<^verbatim>\<open>handleMIDIMessage\<close>) in between. \<open>run\<close> stops at the
  first call that blocks or panics.
\<close>

datatype call =
    CallSelectDevice int coremidi
  | CallStartCapture "nat option"
  | CallStop
  | Callback Packet int

datatype ret = RetError "error option" | RetUnit

fun state_of :: "'a outcome \<Rightarrow> ClientMid" where
  "state_of (Returns r m) = m"
| "state_of (Blocks m) = m"
| "state_of (Panics msg m) = m"

fun returned :: "'a outcome \<Rightarrow> 'a option" where
  "returned (Returns r m) = Some r"
| "returned (Blocks m) = None"
| "returned (Panics msg m) = None"

fun then_ret :: "'a outcome \<Rightarrow> ('a \<Rightarrow> 'b) \<Rightarrow> 'b outcome" where
  "then_ret (Returns r m) f = Returns (f r) m"
| "then_ret (Blocks m) f = Blocks m"
| "then_ret (Panics msg m) f = Panics msg m"

fun perform :: "call \<Rightarrow> ClientMid \<Rightarrow> ret outcome" where
  "perform (CallSelectDevice deviceID lib) m = then_ret (SelectDevice m deviceID lib) RetError"
| "perform (CallStartCapture ch) m = then_ret (StartCapture m ch) (\<lambda>u. RetUnit)"
| "perform CallStop m = then_ret (Stop m) RetError"
| "perform (Callback packet UnixNano) m =
     then_ret (handleMIDIMessage m packet UnixNano) (\<lambda>u. RetUnit)"

fun run :: "call list \<Rightarrow> ClientMid \<Rightarrow> ret list outcome" where
  "run [] m = Returns [] m"
| "run (c # cs) m =
     (case perform c m of
        Returns r m1 \<Rightarrow> then_ret (run cs m1) (\<lambda>rs. r # rs)
      | Blocks m1 \<Rightarrow> Blocks m1
      | Panics msg m1 \<Rightarrow> Panics msg m1)"


subsection \<open>A concrete session\<close>

text \<open>
  The options of \<^verbatim>\<open>applyDefaultOptions\<close> with no filter, the client they give when
  the caller has made one channel of capacity 1 (channel 0), and a native library with
  two sources on which every call succeeds.
\<close>

definition options0 :: ClientOptions where
  "options0 =
     \<lparr>Logger = [], MIDIEventFilter = None,
      CoreMIDIConfig = \<lparr>ClientName = ''GO MIDI Client''\<rparr>\<rparr>"

definition client0 :: ClientMid where
  "client0 =
     \<lparr>logger = [(LogInfo, ''MIDI client successfully created'', [])],
      eventChannel = None, client = 1, inputPort = 0, portConn = None,
      midiEventFilter = None, coreMIDIConfig = \<lparr>ClientName = ''GO MIDI Client''\<rparr>,
      mu = False, capturing = False, wg = 0, stopOnce = False,
      chans = [make_chan 1], disconnected = []\<rparr>"

definition lib0 :: coremidi where
  "lib0 =
     \<lparr>AllSources =
        ([\<lparr>Name = ''Keys'', EntityName = ''Keyboard'', Manufacturer = ''ACME''\<rparr>,
          \<lparr>Name = ''Pads'', EntityName = ''Drum pad'', Manufacturer = ''ACME''\<rparr>], None),
      NewInputPort = (2, None),
      Connect = (\<lambda>source. (Some 7, None))\<rparr>"

text \<open>The client after \<^verbatim>\<open>SelectDevice(0)\<close> and \<^verbatim>\<open>StartCapture\<close> on channel 0.\<close>

definition capturing0 :: ClientMid where
  "capturing0 = state_of (run [CallSelectDevice 0 lib0, CallStartCapture (Some 0)] client0)"

text \<open>The client after \<^verbatim>\<open>SelectDevice(0)\<close> alone.\<close>

definition selected0 :: ClientMid where
  "selected0 = state_of (run [CallSelectDevice 0 lib0] client0)"

subsection \<open>Before and after the first Stop\<close>



section \<open>Basic facts\<close>

lemmas client_defs =
  SelectDevice_def Stop_def StartCapture_def handleMIDIMessage_def
  handleMIDIMessage_part000_def stopCapture_part000_def Stop_part000_def StartCapture_part000_def
  Info_def Warn_def Error_def disconnect_portConn_def select_send_def make_chan_def
  decode_def filtered_out_def wg_Done_def Let_def

lemmas session_defs = options0_def client0_def lib0_def capturing0_def selected0_def NewMIDIClient_def


lemma capturing0_eq:
  "capturing0 =
     \<lparr>logger = [(LogInfo, ''MIDI client successfully created'', []),
                (LogInfo, ''MIDI device selected'',
                   [FieldInt ''deviceID'' 0, FieldString ''deviceName'' ''Keys'']),
                (LogInfo, ''MIDI device successfully connected'', []),
                (LogInfo, ''Starting MIDI event capture'', [])],
      eventChannel = Some 0, client = 1, inputPort = 2, portConn = Some 7,
      midiEventFilter = None, coreMIDIConfig = \<lparr>ClientName = ''GO MIDI Client''\<rparr>,
      mu = False, capturing = True, wg = 0, stopOnce = False,
      chans = [make_chan 1], disconnected = []\<rparr>"
  by (simp add: session_defs client_defs)


lemma isCommandAllowed_iff: "isCommandAllowed command allowedCommands \<longleftrightarrow> command \<in> set allowedCommands"
  by (induction allowedCommands) auto

lemma selected0_eq:
  "selected0 =
     \<lparr>logger = [(LogInfo, ''MIDI client successfully created'', []),
                (LogInfo, ''MIDI device selected'',
                   [FieldInt ''deviceID'' 0, FieldString ''deviceName'' ''Keys'']),
                (LogInfo, ''MIDI device successfully connected'', [])],
      eventChannel = None, client = 1, inputPort = 2, portConn = Some 7,
      midiEventFilter = None, coreMIDIConfig = \<lparr>ClientName = ''GO MIDI Client''\<rparr>,
      mu = False, capturing = False, wg = 0, stopOnce = False,
      chans = [make_chan 1], disconnected = []\<rparr>"
  by (simp add: session_defs client_defs)

subsection \<open>Between two calls the mutex is free and no callback is in flight\<close>

lemma Stop_quiescent:
  assumes "Stop m = Returns r m'" and "\<not> mu m" and "wg m = 0"
  shows "\<not> mu m' \<and> wg m' = 0"
  using assms
  by (auto simp: Stop_def Info_def disconnect_portConn_def Let_def split: option.splits if_splits)

lemma SelectDevice_quiescent:
  assumes "SelectDevice m deviceID lib = Returns r m'" and "\<not> mu m" and "wg m = 0"
  shows "\<not> mu m' \<and> wg m' = 0"
  using assms
  by (auto simp: SelectDevice_def Info_def Error_def disconnect_portConn_def Let_def
      split: option.splits if_splits)

lemma handleMIDIMessage_quiescent:
  assumes "handleMIDIMessage m packet t = Returns r m'" and "\<not> mu m" and "wg m = 0"
  shows "\<not> mu m' \<and> wg m' = 0"
  using assms
  by (auto simp: handleMIDIMessage_def Warn_def wg_Done_def Let_def
      split: option.splits if_splits send_result.splits)

lemma StartCapture_quiescent:
  assumes "StartCapture m ch = Returns r m'" and "\<not> mu m" and "wg m = 0"
  shows "\<not> mu m' \<and> wg m' = 0"
  using assms
  by (auto simp: StartCapture_def Stop_def Info_def Warn_def Error_def Let_def
      split: option.splits if_splits outcome.splits)

lemma perform_quiescent:
  assumes "perform c m = Returns r m'" and "\<not> mu m" and "wg m = 0"
  shows "\<not> mu m' \<and> wg m' = 0"
proof (cases c)
  case (CallSelectDevice deviceID lib)
  then show ?thesis
    using assms SelectDevice_quiescent[of m deviceID lib]
    by (cases "SelectDevice m deviceID lib") auto
next
  case (CallStartCapture ch)
  then show ?thesis
    using assms StartCapture_quiescent[of m ch] by (cases "StartCapture m ch") auto
next
  case CallStop
  then show ?thesis
    using assms Stop_quiescent[of m] by (cases "Stop m") auto
next
  case (Callback packet t)
  then show ?thesis
    using assms handleMIDIMessage_quiescent[of m packet t]
    by (cases "handleMIDIMessage m packet t") auto
qed

lemma run_quiescent:
  assumes "run calls m = Returns rs m'" and "\<not> mu m" and "wg m = 0"
  shows "\<not> mu m' \<and> wg m' = 0"
  using assms
proof (induction calls arbitrary: m rs)
  case Nil
  then show ?case by simp
next
  case (Cons c calls)
  from Cons.prems(1) obtain r m1 where p: "perform c m = Returns r m1"
    by (cases "perform c m") auto
  with Cons.prems(1) obtain rs' where "run calls m1 = Returns rs' m'"
    by (cases "run calls m1") auto
  moreover have "\<not> mu m1 \<and> wg m1 = 0"
    using perform_quiescent[OF p] Cons.prems by simp
  ultimately show ?case using Cons.IH by blast
qed

subsection \<open>Before the first Stop\<close>







subsection \<open>After the first Stop\<close>








subsection \<open>Repeated Stop calls on the client of internal/midi/mididarwin\<close>

lemma run_replicate_Stop:
  assumes "Stop m = Returns None m"
  shows "run (replicate n CallStop) m = Returns (replicate n (RetError None)) m"
  using assms by (induction n) auto

lemma Stop_returns:
  assumes "\<not> mu m" and "wg m = 0"
  shows "\<exists>m1. Stop m = Returns None m1 \<and> stopOnce m1"
  using assms
  by (auto simp: Stop_def Info_def disconnect_portConn_def Let_def split: option.splits)

text \<open>
  \<^verbatim>\<open>Stop\<close> of internal/midi/mididarwin between two calls of a sequential caller
  (mutex free, no callback in flight): it returns nil, and any number \<open>n\<close> of further
  calls return nil and change nothing. The body, which starts by logging "Stopping MIDI
  capture", has run at most once over all the calls; they call \<^verbatim>\<open>Disconnect()\<close> at
  most once, on the connection the client held, which is nil afterwards.
\<close>

lemma Stop_idempotent:
  assumes "\<not> mu m" and "wg m = 0"
  shows "\<exists>m1. Stop m = Returns None m1 \<and>
           run (replicate n CallStop) m1 = Returns (replicate n (RetError None)) m1 \<and>
           count_list (logger m1) (LogInfo, ''Stopping MIDI capture'', [])
             \<le> Suc (count_list (logger m) (LogInfo, ''Stopping MIDI capture'', [])) \<and>
           disconnected m1 = disconnected m @
             (if capturing m \<and> \<not> stopOnce m
              then (case portConn m of None \<Rightarrow> [] | Some c \<Rightarrow> [c]) else []) \<and>
           (capturing m \<and> \<not> stopOnce m \<longrightarrow> portConn m1 = None)"
proof -
  from Stop_returns[OF assms] obtain m1 where
    s: "Stop m = Returns None m1" "stopOnce m1" by auto
  have "Stop m1 = Returns None m1"
    using s(2) by (simp add: Stop_def)
  then have r: "run (replicate n CallStop) m1 = Returns (replicate n (RetError None)) m1"
    by (rule run_replicate_Stop)
  have l: "count_list (logger m1) (LogInfo, ''Stopping MIDI capture'', [])
             \<le> Suc (count_list (logger m) (LogInfo, ''Stopping MIDI capture'', []))"
    using s(1) assms
    by (auto simp: Stop_def Info_def disconnect_portConn_def Let_def
        split: option.splits if_splits)
  have d: "disconnected m1 = disconnected m @
             (if capturing m \<and> \<not> stopOnce m
              then (case portConn m of None \<Rightarrow> [] | Some c \<Rightarrow> [c]) else [])"
    using s(1) assms
    by (auto simp: Stop_def Info_def disconnect_portConn_def Let_def
        split: option.splits if_splits)
  have p: "capturing m \<and> \<not> stopOnce m \<longrightarrow> portConn m1 = None"
    using s(1) assms
    by (auto simp: Stop_def Info_def disconnect_portConn_def Let_def
        split: option.splits if_splits)
  from s(1) r l d p show ?thesis by blast
qed

lemma Stop_idempotent_capturing0:
  "Stop capturing0 = Returns None (state_of (Stop capturing0)) \<and>
   run (replicate 3 CallStop) (state_of (Stop capturing0))
     = Returns [RetError None, RetError None, RetError None] (state_of (Stop capturing0)) \<and>
   disconnected (state_of (Stop capturing0)) = [7] \<and>
   portConn (state_of (Stop capturing0)) = None"
  using Stop_idempotent[of capturing0 3]
  by (auto simp: capturing0_eq numeral_3_eq_3)

subsection \<open>Where a call does not return\<close>

text \<open>
  \<^verbatim>\<open>StartCapture\<close> of internal/midi/mididarwin, called with a channel while a capture
  is running and the Once has not run, blocks: it holds the mutex that the body of
  \<^verbatim>\<open>Stop\<close> waits for.
\<close>

lemma StartCapture_while_capturing_blocks:
  assumes "\<not> mu m" and "capturing m" and "\<not> stopOnce m"
  shows "StartCapture m (Some ch)
           = Blocks (m\<lparr>mu := True, logger := logger m @
               [(LogWarn, ''Capture already started; attempting to stop existing capture'', []),
                (LogInfo, ''Stopping MIDI capture'', [])]\<rparr>)"
  using assms
  by (cases m) (simp add: StartCapture_def Stop_def Warn_def Info_def Let_def)

text \<open>
  In the variant without Once, \<^verbatim>\<open>Stop\<close> panics as soon as a channel has been stored:
  the port connection is closed, then \<^verbatim>\<open>m.eventChannel.Store(nil)\<close> panics.
\<close>

lemma StartCapture_part000_selected0:
  "StartCapture_part000 selected0 (Some 0) = Returns () capturing0"
  by (simp add: selected0_eq capturing0_eq StartCapture_part000_def Info_def Let_def)

lemma Stop_part000_panics:
  assumes "\<not> mu m" and "eventChannel m \<noteq> None"
  shows "Stop_part000 m
           = Panics ''sync/atomic: store of nil value into Value''
               (disconnect_portConn
                  (m\<lparr>logger := logger m @ [(LogInfo, ''Stopping MIDI capture'', [])]\<rparr>))"
  using assms
  by (cases m)
     (auto simp: Stop_part000_def stopCapture_part000_def Info_def disconnect_portConn_def Let_def
      split: option.splits)

section \<open>The claims\<close>

subsection \<open>C1: no event after Stop\<close>




subsection \<open>C2: Stop is idempotent\<close>

text \<open>
  C2 fails on \<^verbatim>\<open>Stop\<close> of src/unnamed/part_000, which has no Once. A new client
  selects device 0 and starts a capture on channel 0. \<^verbatim>\<open>Stop()\<close> then logs, calls
  \<^verbatim>\<open>Disconnect()\<close> on connection 7, and panics in \<^verbatim>\<open>m.eventChannel.Store(nil)\<close>: the
  call does not return nil, \<open>capturing\<close> stays true and the channel stays stored.
\<close>

theorem stop_part000_panics_after_start_capture:
  "SelectDevice client0 0 lib0 = Returns None selected0 \<and>
   StartCapture_part000 selected0 (Some 0) = Returns () capturing0 \<and>
   Stop_part000 capturing0
     = Panics ''sync/atomic: store of nil value into Value''
         (capturing0\<lparr>logger := logger capturing0 @ [(LogInfo, ''Stopping MIDI capture'', [])],
                      portConn := None, disconnected := [7]\<rparr>) \<and>
   returned (Stop_part000 capturing0) = None \<and>
   capturing (state_of (Stop_part000 capturing0)) \<and>
   eventChannel (state_of (Stop_part000 capturing0)) = Some 0"
  by (simp add: selected0_eq capturing0_eq client0_def lib0_def client_defs)

subsection \<open>C3: the decoded event\<close>

text \<open>
  C3 fails on the Darwin client. For the Note-On of MIDI channel 2, the bytes
  \<open>0x91 0x3C 0x64\<close>, both variants of \<^verbatim>\<open>handleMIDIMessage\<close> send an event whose
  \<open>Command\<close> is the whole status byte \<open>0x91\<close>, where the claim says
  \<open>0x91 AND 0xF0 = 0x90\<close>; note, velocity and timestamp are as claimed.
\<close>

theorem darwin_command_keeps_channel_nibble:
  "handleMIDIMessage capturing0 \<lparr>Data = [0x91, 0x3C, 0x64]\<rparr> 1000
     = Returns () (capturing0\<lparr>chans :=
         [\<lparr>chan_cap = 1,
           chan_buf = [\<lparr>Timestamp = 1000, Command = 0x91, Note = 0x3C, Velocity = 0x64\<rparr>],
           chan_closed = False\<rparr>]\<rparr>) \<and>
   handleMIDIMessage_part000 capturing0 \<lparr>Data = [0x91, 0x3C, 0x64]\<rparr> 1000
     = Returns () (capturing0\<lparr>chans :=
         [\<lparr>chan_cap = 1,
           chan_buf = [\<lparr>Timestamp = 1000, Command = 0x91, Note = 0x3C, Velocity = 0x64\<rparr>],
           chan_closed = False\<rparr>]\<rparr>) \<and>
   (0x91 :: byte) AND 0xF0 = 0x90 \<and> (0x91 :: byte) \<noteq> 0x90"
  by (simp add: capturing0_eq client_defs)

subsection \<open>C4: the event filter\<close>

text \<open>
  C4, as amended. An event passes the filter when no filter is configured; when one is
  configured, it passes exactly when the command byte handed to the filter is one of the
  configured commands. So a configured filter with no command lets nothing pass.
\<close>

theorem filter_passes_iff_member:
  "\<not> filtered_out flt command \<longleftrightarrow>
     (case flt of None \<Rightarrow> True | Some f \<Rightarrow> command \<in> set (Commands f))"
  by (simp add: filtered_out_def isCommandAllowed_iff split: option.splits)

text \<open>
  C4 as stated fails: with a filter whose command set is empty, Note-On is filtered out,
  and the callback drops the event \<open>0x90 0x3C 0x64\<close> without sending or logging.
\<close>

theorem empty_filter_drops_everything:
  "filtered_out (Some \<lparr>Commands = []\<rparr>) NoteOn \<and>
   handleMIDIMessage (capturing0\<lparr>midiEventFilter := Some \<lparr>Commands = []\<rparr>\<rparr>)
       \<lparr>Data = [0x90, 0x3C, 0x64]\<rparr> 1000
     = Returns () (capturing0\<lparr>midiEventFilter := Some \<lparr>Commands = []\<rparr>\<rparr>)"
  by (simp add: capturing0_eq client_defs NoteOn_def)

subsection \<open>C5: StartCapture with no device selected\<close>

text \<open>
  C5 fails on the Darwin client. On the new client \<open>client0\<close>, which has no port
  connection, \<^verbatim>\<open>StartCapture\<close> on channel 0 logs "Starting MIDI event capture" at Info
  level and nothing else, stores the channel and sets \<open>capturing\<close>, in both variants.
\<close>

theorem start_capture_without_device_installs_sink:
  "portConn client0 = None \<and> \<not> capturing client0 \<and>
   StartCapture client0 (Some 0)
     = Returns () (client0\<lparr>logger := logger client0 @ [(LogInfo, ''Starting MIDI event capture'', [])],
                           eventChannel := Some 0, capturing := True\<rparr>) \<and>
   StartCapture_part000 client0 (Some 0)
     = Returns () (client0\<lparr>logger := logger client0 @ [(LogInfo, ''Starting MIDI event capture'', [])],
                           eventChannel := Some 0, capturing := True\<rparr>)"
  by (simp add: client0_def client_defs)

subsection \<open>C6: the port connection after Stop\<close>

text \<open>
  C6 fails on \<^verbatim>\<open>Stop\<close> of internal/midi/mididarwin. After \<^verbatim>\<open>SelectDevice(0)\<close> the
  client holds connection 7 and is not capturing. \<^verbatim>\<open>Stop()\<close> returns nil, the client
  still holds connection 7, and \<^verbatim>\<open>Disconnect()\<close> was not called.
\<close>

theorem stop_leaves_selected_device_connected:
  "SelectDevice client0 0 lib0 = Returns None selected0 \<and>
   portConn selected0 = Some 7 \<and> \<not> capturing selected0 \<and>
   Stop selected0
     = Returns None (selected0\<lparr>logger := logger selected0 @ [(LogInfo, ''Stopping MIDI capture'', [])],
                               stopOnce := True\<rparr>) \<and>
   portConn (state_of (Stop selected0)) = Some 7 \<and>
   disconnected (state_of (Stop selected0)) = []"
  by (simp add: selected0_eq client0_def lib0_def client_defs)

subsection \<open>C7: SelectDevice with an index out of bounds\<close>

text \<open>
  C7. When the enumeration succeeds with \<open>sources\<close> and the index is negative or at
  least the number of sources, \<^verbatim>\<open>SelectDevice\<close> returns \<^verbatim>\<open>ErrInvalidMIDIDevice\<close> and
  the client is as before but for one Error entry in the log: the port connection, the
  input port, the capturing flag, the event channel and the list of disconnected
  connections are unchanged.
\<close>

theorem select_device_out_of_bounds:
  assumes "\<not> mu m" and "AllSources lib = (sources, None)"
    and "deviceID < 0 \<or> deviceID \<ge> int (length sources)"
  shows "SelectDevice m deviceID lib
           = Returns (Some ErrInvalidMIDIDevice)
               (m\<lparr>logger := logger m @ [(LogError, ''invalid MIDI device'', [])]\<rparr>)"
  using assms by (cases m) (auto simp: SelectDevice_def Error_def Let_def)

text \<open>
  The theorem at the capturing client \<open>capturing0\<close> with the two sources of \<open>lib0\<close> and
  index 2, one past the end.
\<close>

theorem select_device_out_of_bounds_witness:
  "SelectDevice capturing0 2 lib0
     = Returns (Some ErrInvalidMIDIDevice)
         (capturing0\<lparr>logger := logger capturing0 @ [(LogError, ''invalid MIDI device'', [])]\<rparr>) \<and>
   portConn capturing0 = Some 7"
  using select_device_out_of_bounds[of capturing0 lib0 "fst (AllSources lib0)" 2]
  by (simp add: capturing0_eq lib0_def)

subsection \<open>C8: packets shorter than three bytes\<close>

text \<open>
  C8, as amended. For a packet of fewer than three bytes the callback returns and sends
  nothing: the client is as before but for one Warn entry in the log. The entry is
  "incomplete MIDI packet" when an event channel has been stored, and "eventChannel not
  initialized or of invalid type" when none has. Both variants agree.
\<close>

theorem short_packet_never_enqueued:
  assumes "length (Data packet) < 3"
  shows "handleMIDIMessage m packet t
           = Returns () (m\<lparr>logger := logger m @
               [(LogWarn, if eventChannel m = None
                          then ''eventChannel not initialized or of invalid type''
                          else ''incomplete MIDI packet'', [])]\<rparr>) \<and>
         handleMIDIMessage_part000 m packet t
           = Returns () (m\<lparr>logger := logger m @
               [(LogWarn, if eventChannel m = None
                          then ''eventChannel not initialized or of invalid type''
                          else ''incomplete MIDI packet'', [])]\<rparr>)"
  using assms
  by (cases m)
     (auto simp: handleMIDIMessage_def handleMIDIMessage_part000_def Warn_def wg_Done_def Let_def
      split: option.splits)

text \<open>The theorem at the capturing client \<open>capturing0\<close> and a packet of two bytes.\<close>

theorem short_packet_never_enqueued_witness:
  "handleMIDIMessage capturing0 \<lparr>Data = [0x90, 0x3C]\<rparr> 1000
     = Returns () (capturing0\<lparr>logger := logger capturing0 @
         [(LogWarn, ''incomplete MIDI packet'', [])]\<rparr>) \<and>
   handleMIDIMessage_part000 capturing0 \<lparr>Data = [0x90, 0x3C]\<rparr> 1000
     = Returns () (capturing0\<lparr>logger := logger capturing0 @
         [(LogWarn, ''incomplete MIDI packet'', [])]\<rparr>)"
  using short_packet_never_enqueued[of "\<lparr>Data = [0x90, 0x3C]\<rparr>" capturing0 1000]
  by (simp add: capturing0_eq)

text \<open>
  C8 as stated fails: on the client \<open>selected0\<close>, connected to device 0 and with no
  event channel stored yet, a packet of two bytes is answered with the warning about the
  event channel, and the incomplete packet is not reported.
\<close>

theorem short_packet_without_channel_not_reported:
  "handleMIDIMessage selected0 \<lparr>Data = [0x90, 0x3C]\<rparr> 1000
     = Returns () (selected0\<lparr>logger := logger selected0 @
         [(LogWarn, ''eventChannel not initialized or of invalid type'', [])]\<rparr>) \<and>
   (LogWarn, ''incomplete MIDI packet'', [])
     \<notin> set (logger (state_of (handleMIDIMessage selected0 \<lparr>Data = [0x90, 0x3C]\<rparr> 1000))) \<and>
   handleMIDIMessage_part000 selected0 \<lparr>Data = [0x90, 0x3C]\<rparr> 1000
     = Returns () (selected0\<lparr>logger := logger selected0 @
         [(LogWarn, ''eventChannel not initialized or of invalid type'', [])]\<rparr>)"
  by (simp add: selected0_eq client_defs)

subsection \<open>C9: the send does not block\<close>

text \<open>
  C9. Let the event channel be an empty channel of capacity 1, and let two packets of at
  least three bytes pass the filter. The first callback returns with its event in the
  channel and logs nothing; the second returns with the channel unchanged, still holding
  the first event only, and logs "Event buffer full; dropping MIDI event" at Warn level.
  Neither call blocks or panics. Both variants agree.
\<close>

theorem try_send_capacity_one:
  assumes "eventChannel m = Some ch" and "ch < length (chans m)"
    and "chans m ! ch = make_chan 1"
    and "3 \<le> length (Data p1)" and "3 \<le> length (Data p2)"
    and "\<not> filtered_out (midiEventFilter m) (Data p1 ! 0)"
    and "\<not> filtered_out (midiEventFilter m) (Data p2 ! 0)"
  shows "handleMIDIMessage m p1 t1
           = Returns ()
               (m\<lparr>chans := (chans m)[ch := (make_chan 1)\<lparr>chan_buf := [decode p1 t1]\<rparr>]\<rparr>) \<and>
         handleMIDIMessage
             (m\<lparr>chans := (chans m)[ch := (make_chan 1)\<lparr>chan_buf := [decode p1 t1]\<rparr>]\<rparr>) p2 t2
           = Returns ()
               (m\<lparr>chans := (chans m)[ch := (make_chan 1)\<lparr>chan_buf := [decode p1 t1]\<rparr>],
                  logger := logger m @ [(LogWarn, ''Event buffer full; dropping MIDI event'', [])]\<rparr>) \<and>
         handleMIDIMessage_part000 m p1 t1
           = Returns ()
               (m\<lparr>chans := (chans m)[ch := (make_chan 1)\<lparr>chan_buf := [decode p1 t1]\<rparr>]\<rparr>) \<and>
         handleMIDIMessage_part000
             (m\<lparr>chans := (chans m)[ch := (make_chan 1)\<lparr>chan_buf := [decode p1 t1]\<rparr>]\<rparr>) p2 t2
           = Returns ()
               (m\<lparr>chans := (chans m)[ch := (make_chan 1)\<lparr>chan_buf := [decode p1 t1]\<rparr>],
                  logger := logger m @ [(LogWarn, ''Event buffer full; dropping MIDI event'', [])]\<rparr>)"
  using assms
  by (cases m)
     (simp add: handleMIDIMessage_def handleMIDIMessage_part000_def select_send_def
      make_chan_def decode_def Warn_def wg_Done_def Let_def)

text \<open>
  The theorem at the capturing client \<open>capturing0\<close>, whose channel 0 has capacity 1: a
  Note-On and then a Note-Off, with nothing received in between.
\<close>

theorem try_send_capacity_one_witness:
  "handleMIDIMessage capturing0 \<lparr>Data = [0x90, 0x3C, 0x64]\<rparr> 1000
     = Returns ()
         (capturing0\<lparr>chans := [(make_chan 1)\<lparr>chan_buf :=
            [\<lparr>Timestamp = 1000, Command = 0x90, Note = 0x3C, Velocity = 0x64\<rparr>]\<rparr>]\<rparr>) \<and>
   handleMIDIMessage
       (capturing0\<lparr>chans := [(make_chan 1)\<lparr>chan_buf :=
          [\<lparr>Timestamp = 1000, Command = 0x90, Note = 0x3C, Velocity = 0x64\<rparr>]\<rparr>]\<rparr>)
       \<lparr>Data = [0x80, 0x3C, 0x00]\<rparr> 2000
     = Returns ()
         (capturing0\<lparr>chans := [(make_chan 1)\<lparr>chan_buf :=
            [\<lparr>Timestamp = 1000, Command = 0x90, Note = 0x3C, Velocity = 0x64\<rparr>]\<rparr>],
            logger := logger capturing0 @
              [(LogWarn, ''Event buffer full; dropping MIDI event'', [])]\<rparr>)"
  using try_send_capacity_one
    [of capturing0 0 "\<lparr>Data = [0x90, 0x3C, 0x64]\<rparr>" "\<lparr>Data = [0x80, 0x3C, 0x00]\<rparr>" 1000 2000]
  by (simp add: capturing0_eq filtered_out_def decode_def)

subsection \<open>C10: StartCapture with a nil channel\<close>

text \<open>
  C10. \<^verbatim>\<open>StartCapture(nil)\<close> logs "StartCapture called with nil eventChannel" at Error
  level and returns; the client is otherwise as before: the event channel, the capturing
  flag, the port connection and the list of disconnected connections are unchanged. Both
  variants agree; the one of internal/midi/mididarwin takes the mutex first.
\<close>

theorem start_capture_nil_channel:
  assumes "\<not> mu m"
  shows "StartCapture m None
           = Returns () (m\<lparr>logger := logger m @
               [(LogError, ''StartCapture called with nil eventChannel'', [])]\<rparr>) \<and>
         StartCapture_part000 m None
           = Returns () (m\<lparr>logger := logger m @
               [(LogError, ''StartCapture called with nil eventChannel'', [])]\<rparr>)"
  using assms
  by (cases m) (auto simp: StartCapture_def StartCapture_part000_def Error_def Let_def)

text \<open>The theorem at the capturing client \<open>capturing0\<close>: the capture goes on.\<close>

theorem start_capture_nil_channel_witness:
  "StartCapture capturing0 None
     = Returns () (capturing0\<lparr>logger := logger capturing0 @
         [(LogError, ''StartCapture called with nil eventChannel'', [])]\<rparr>) \<and>
   StartCapture_part000 capturing0 None
     = Returns () (capturing0\<lparr>logger := logger capturing0 @
         [(LogError, ''StartCapture called with nil eventChannel'', [])]\<rparr>) \<and>
   capturing capturing0 \<and> eventChannel capturing0 = Some 0"
  using start_capture_nil_channel[of capturing0]
  by (simp add: capturing0_eq)

end
